theory Spec2Isabelle
  imports Main "HOL-Library.Word" "HOL-Library.Option_ord"
begin

section \<open>Casa IoT backend: the in-memory house state and its handlers\<close>

text \<open>
  A shallow embedding of \<^verbatim>\<open>src/main.py\<close>. The module keeps one global
  \<^verbatim>\<open>state = HouseState(...)\<close> that every handler mutates in place. The embedding
  passes that state explicitly, together with what the handlers do to the outside:
  the readings they take from the clock, the requests they send to the ESP32 and the
  lines they print.
\<close>

subsection \<open>Values\<close>

text \<open>
  A \<^verbatim>\<open>datetime\<close> is a point in time, counted in microseconds. A Python
  \<^verbatim>\<open>float\<close> is an IEEE-754 double; the handlers only store and return floats
  (no arithmetic, no comparison), so a float is modelled by its 64 bits.
\<close>

type_synonym datetime = nat

type_synonym float64 = "64 word"

subsection \<open>The state models\<close>

record DoorState =
  name :: string
  is_open :: bool
  last_update :: datetime

datatype room_literal = Cocina | Sala | Dorm

record LightState =
  room :: room_literal
  is_on :: bool
  last_update :: datetime

record PirState =
  active :: bool
  last_update :: datetime

record UltraState =
  active :: bool
  last_update :: datetime
  last_distance_cm :: "float64 option"

record DhtState =
  temperature :: "float64 option"
  humidity :: "float64 option"
  last_update :: "datetime option"

text \<open>
  The two dictionaries are association lists in insertion order, the order in which
  Python iterates \<^verbatim>\<open>dict.values()\<close>.
\<close>

record HouseState =
  doors :: "(string \<times> DoorState) list"
  lights :: "(string \<times> LightState) list"
  pir :: PirState
  ultra :: UltraState
  dht :: DhtState
  modo_seguro :: bool

subsection \<open>The outside world\<close>

text \<open>
  \<^verbatim>\<open>ESP32_BASE_URL\<close> and \<^verbatim>\<open>FORWARD_TO_ESP32\<close> are read from the process
  environment once, when the module is loaded.
\<close>

record config =
  ESP32_BASE_URL :: string
  FORWARD_TO_ESP32 :: bool

text \<open>
  \<^verbatim>\<open>requests.get(url, timeout=3)\<close> either returns a response (whose status code is
  not looked at) or raises an exception (timeout, connection error, ...), whose text is
  printed.
\<close>

datatype requests_result = Response nat | RequestException string

text \<open>
  The environment is arbitrary: \<open>utcnow e k\<close> is what the \<open>k\<close>-th call of
  \<^verbatim>\<open>datetime.utcnow\<close> since the start of the process returns, and
  \<open>requests_get e k url\<close> is how the \<open>k\<close>-th outbound request ends.
\<close>

record env =
  utcnow :: "nat \<Rightarrow> datetime"
  requests_get :: "nat \<Rightarrow> string \<Rightarrow> requests_result"

text \<open>
  Besides the house state, the world records how many readings of the clock were taken,
  the URLs of the outbound requests that were attempted, in order, and the printed lines.
\<close>

record world =
  state :: HouseState
  ticks :: nat
  sent :: "string list"
  stdout :: "string list"

subsection \<open>Statements: state passing with exceptions\<close>

datatype py_error = KeyError string

datatype 'a outcome = Raise py_error world | Return 'a world

type_synonym 'a prog = "world \<Rightarrow> 'a outcome"

definition return :: "'a \<Rightarrow> 'a prog" where
  "return x w = Return x w"

definition andthen :: "'a prog \<Rightarrow> ('a \<Rightarrow> 'b prog) \<Rightarrow> 'b prog" where
  "andthen m f w = (case m w of Raise err w' \<Rightarrow> Raise err w' | Return x w' \<Rightarrow> f x w')"

fun world_of :: "'a outcome \<Rightarrow> world" where
  "world_of (Raise err w) = w"
| "world_of (Return x w) = w"

text \<open>\<^verbatim>\<open>now = datetime.utcnow\<close>: each call is the next reading of the clock.\<close>

definition now :: "env \<Rightarrow> datetime prog" where
  "now e w = Return (utcnow e (ticks w)) (w\<lparr>ticks := Suc (ticks w)\<rparr>)"

text \<open>
  \<^verbatim>\<open>d[k]\<close> raises \<^verbatim>\<open>KeyError\<close> on a missing key. An attribute assignment on
  the object found under \<open>k\<close> changes the entry where it stands.
\<close>

definition getitem :: "(string \<times> 'a) list \<Rightarrow> string \<Rightarrow> world \<Rightarrow> 'a outcome" where
  "getitem d k w = (case map_of d k of None \<Rightarrow> Raise (KeyError k) w | Some v \<Rightarrow> Return v w)"

fun mutate :: "string \<Rightarrow> 'a \<Rightarrow> (string \<times> 'a) list \<Rightarrow> (string \<times> 'a) list" where
  "mutate k v [] = []"
| "mutate k v ((k', v') # d) = (if k' = k then (k', v) # d else (k', v') # mutate k v d)"

definition modify :: "(HouseState \<Rightarrow> HouseState) \<Rightarrow> unit prog" where
  "modify f w = Return () (w\<lparr>state := f (state w)\<rparr>)"

definition doors_getitem :: "string \<Rightarrow> DoorState prog" where
  "doors_getitem k w = getitem (doors (state w)) k w"

definition lights_getitem :: "string \<Rightarrow> LightState prog" where
  "lights_getitem k w = getitem (lights (state w)) k w"

text \<open>
  \<open>door_write k v\<close>: the door object held under \<open>k\<close> now has the value \<open>v\<close>
  (an attribute of it was assigned); the new value is returned. Likewise for lights.
\<close>

definition door_write :: "string \<Rightarrow> DoorState \<Rightarrow> DoorState prog" where
  "door_write k v w = Return v (w\<lparr>state := (state w)\<lparr>doors := mutate k v (doors (state w))\<rparr>\<rparr>)"

definition light_write :: "string \<Rightarrow> LightState \<Rightarrow> LightState prog" where
  "light_write k v w = Return v (w\<lparr>state := (state w)\<lparr>lights := mutate k v (lights (state w))\<rparr>\<rparr>)"

subsection \<open>Forwarding a command to the ESP32\<close>

definition send_command_to_esp :: "config \<Rightarrow> env \<Rightarrow> string \<Rightarrow> unit prog" where
  "send_command_to_esp c e path w =
     (if \<not> FORWARD_TO_ESP32 c then Return () w
      else
        let url = ESP32_BASE_URL c @ path;
            w1 = w\<lparr>stdout := stdout w @ [''[INFO] Enviando comando al ESP32: '' @ url]\<rparr>;
            w2 = w1\<lparr>sent := sent w1 @ [url]\<rparr>
        in case requests_get e (length (sent w1)) url of
             Response code \<Rightarrow> Return () w2
           | RequestException msg \<Rightarrow>
               Return () (w2\<lparr>stdout := stdout w2 @
                 [''[WARN] No se pudo contactar al ESP32 en '' @ path @ '': '' @ msg]\<rparr>))"

text \<open>The world as \<^verbatim>\<open>send_command_to_esp\<close> leaves it.\<close>

definition after_send :: "config \<Rightarrow> env \<Rightarrow> string \<Rightarrow> world \<Rightarrow> world" where
  "after_send c e path w = world_of (send_command_to_esp c e path w)"

subsection \<open>The state in memory at start\<close>

definition initial_state :: "env \<Rightarrow> HouseState" where
  "initial_state e =
     \<lparr>doors =
        [(''principal'', \<lparr>name = ''principal'', is_open = False, DoorState.last_update = utcnow e 0\<rparr>),
         (''garage'', \<lparr>name = ''garage'', is_open = False, DoorState.last_update = utcnow e 1\<rparr>)],
      lights =
        [(''cocina'', \<lparr>room = Cocina, is_on = False, LightState.last_update = utcnow e 2\<rparr>),
         (''sala'', \<lparr>room = Sala, is_on = False, LightState.last_update = utcnow e 3\<rparr>),
         (''dorm'', \<lparr>room = Dorm, is_on = False, LightState.last_update = utcnow e 4\<rparr>)],
      pir = \<lparr>PirState.active = False, PirState.last_update = utcnow e 5\<rparr>,
      ultra = \<lparr>UltraState.active = False, UltraState.last_update = utcnow e 6,
               last_distance_cm = None\<rparr>,
      dht = \<lparr>temperature = None, humidity = None, DhtState.last_update = None\<rparr>,
      modo_seguro = False\<rparr>"

definition startup :: "env \<Rightarrow> world" where
  "startup e = \<lparr>state = initial_state e, ticks = 7, sent = [], stdout = []\<rparr>"

subsection \<open>Responses\<close>

text \<open>
  A handler returns either a model (\<^verbatim>\<open>/status\<close>, \<^verbatim>\<open>/dht\<close>) or a dictionary
  with a message and one more entry, named after the key of that entry.
\<close>

datatype response =
    Model_HouseState HouseState
  | Model_DhtState DhtState
  | Message_door string DoorState
  | Message_ultra string UltraState
  | Message_light string LightState
  | Message_pir string PirState
  | Message_dht string DhtState
  | Message_status string HouseState

subsection \<open>Handlers\<close>

definition get_status :: "response prog" where
  "get_status w = Return (Model_HouseState (state w)) w"

definition principal_open :: "config \<Rightarrow> env \<Rightarrow> response prog" where
  "principal_open c e =
     andthen (doors_getitem ''principal'') (\<lambda>door.
     andthen (door_write ''principal'' (door\<lparr>is_open := True\<rparr>)) (\<lambda>_.
     andthen (now e) (\<lambda>t.
     andthen (doors_getitem ''principal'') (\<lambda>door.
     andthen (door_write ''principal'' (door\<lparr>DoorState.last_update := t\<rparr>)) (\<lambda>_.
     andthen (modify (\<lambda>s. s\<lparr>HouseState.modo_seguro := False\<rparr>)) (\<lambda>_.
     andthen (send_command_to_esp c e ''/principal/open'') (\<lambda>_.
     andthen (doors_getitem ''principal'') (\<lambda>door.
     return (Message_door ''Puerta principal abierta'' door)))))))))"

definition principal_close :: "config \<Rightarrow> env \<Rightarrow> response prog" where
  "principal_close c e =
     andthen (doors_getitem ''principal'') (\<lambda>door.
     andthen (door_write ''principal'' (door\<lparr>is_open := False\<rparr>)) (\<lambda>_.
     andthen (now e) (\<lambda>t.
     andthen (doors_getitem ''principal'') (\<lambda>door.
     andthen (door_write ''principal'' (door\<lparr>DoorState.last_update := t\<rparr>)) (\<lambda>_.
     andthen (send_command_to_esp c e ''/principal/close'') (\<lambda>_.
     andthen (doors_getitem ''principal'') (\<lambda>door.
     return (Message_door ''Puerta principal cerrada'' door))))))))"

definition garage_open :: "config \<Rightarrow> env \<Rightarrow> response prog" where
  "garage_open c e =
     andthen (doors_getitem ''garage'') (\<lambda>door.
     andthen (door_write ''garage'' (door\<lparr>is_open := True\<rparr>)) (\<lambda>_.
     andthen (now e) (\<lambda>t.
     andthen (doors_getitem ''garage'') (\<lambda>door.
     andthen (door_write ''garage'' (door\<lparr>DoorState.last_update := t\<rparr>)) (\<lambda>_.
     andthen (modify (\<lambda>s. s\<lparr>HouseState.modo_seguro := False\<rparr>)) (\<lambda>_.
     andthen (send_command_to_esp c e ''/garage/open'') (\<lambda>_.
     andthen (doors_getitem ''garage'') (\<lambda>door.
     return (Message_door ''Puerta garage abierta'' door)))))))))"

definition garage_close :: "config \<Rightarrow> env \<Rightarrow> response prog" where
  "garage_close c e =
     andthen (doors_getitem ''garage'') (\<lambda>door.
     andthen (door_write ''garage'' (door\<lparr>is_open := False\<rparr>)) (\<lambda>_.
     andthen (now e) (\<lambda>t.
     andthen (doors_getitem ''garage'') (\<lambda>door.
     andthen (door_write ''garage'' (door\<lparr>DoorState.last_update := t\<rparr>)) (\<lambda>_.
     andthen (send_command_to_esp c e ''/garage/close'') (\<lambda>_.
     andthen (doors_getitem ''garage'') (\<lambda>door.
     return (Message_door ''Puerta garage cerrada'' door))))))))"

definition ultra_on :: "config \<Rightarrow> env \<Rightarrow> response prog" where
  "ultra_on c e =
     andthen (modify (\<lambda>s. s\<lparr>ultra := (ultra s)\<lparr>UltraState.active := True\<rparr>\<rparr>)) (\<lambda>_.
     andthen (now e) (\<lambda>t.
     andthen (modify (\<lambda>s. s\<lparr>ultra := (ultra s)\<lparr>UltraState.last_update := t\<rparr>\<rparr>)) (\<lambda>_.
     andthen (send_command_to_esp c e ''/ultra/on'') (\<lambda>_.
     (\<lambda>w. Return (Message_ultra ''Ultrasonido activado'' (ultra (state w))) w)))))"

definition ultra_off :: "config \<Rightarrow> env \<Rightarrow> response prog" where
  "ultra_off c e =
     andthen (modify (\<lambda>s. s\<lparr>ultra := (ultra s)\<lparr>UltraState.active := False\<rparr>\<rparr>)) (\<lambda>_.
     andthen (now e) (\<lambda>t.
     andthen (modify (\<lambda>s. s\<lparr>ultra := (ultra s)\<lparr>UltraState.last_update := t\<rparr>\<rparr>)) (\<lambda>_.
     andthen (send_command_to_esp c e ''/ultra/off'') (\<lambda>_.
     (\<lambda>w. Return (Message_ultra ''Ultrasonido desactivado'' (ultra (state w))) w)))))"

text \<open>The body of \<^verbatim>\<open>POST /ultra/distance\<close>, already validated.\<close>

record UltraDistanceUpdate =
  distance_cm :: float64

definition ultra_update_distance :: "env \<Rightarrow> UltraDistanceUpdate \<Rightarrow> response prog" where
  "ultra_update_distance e data =
     andthen (modify (\<lambda>s. s\<lparr>ultra := (ultra s)\<lparr>last_distance_cm := Some (distance_cm data)\<rparr>\<rparr>)) (\<lambda>_.
     andthen (now e) (\<lambda>t.
     andthen (modify (\<lambda>s. s\<lparr>ultra := (ultra s)\<lparr>UltraState.last_update := t\<rparr>\<rparr>)) (\<lambda>_.
     (\<lambda>w. Return (Message_ultra ''Distancia actualizada'' (ultra (state w))) w))))"

definition cocina_on :: "config \<Rightarrow> env \<Rightarrow> response prog" where
  "cocina_on c e =
     andthen (lights_getitem ''cocina'') (\<lambda>light.
     andthen (light_write ''cocina'' (light\<lparr>is_on := True\<rparr>)) (\<lambda>light.
     andthen (now e) (\<lambda>t.
     andthen (light_write ''cocina'' (light\<lparr>LightState.last_update := t\<rparr>)) (\<lambda>light.
     andthen (send_command_to_esp c e ''/cocina/on'') (\<lambda>_.
     return (Message_light ''Luz cocina encendida'' light))))))"

definition cocina_off :: "config \<Rightarrow> env \<Rightarrow> response prog" where
  "cocina_off c e =
     andthen (lights_getitem ''cocina'') (\<lambda>light.
     andthen (light_write ''cocina'' (light\<lparr>is_on := False\<rparr>)) (\<lambda>light.
     andthen (now e) (\<lambda>t.
     andthen (light_write ''cocina'' (light\<lparr>LightState.last_update := t\<rparr>)) (\<lambda>light.
     andthen (send_command_to_esp c e ''/cocina/off'') (\<lambda>_.
     return (Message_light ''Luz cocina apagada'' light))))))"

definition sala_on :: "config \<Rightarrow> env \<Rightarrow> response prog" where
  "sala_on c e =
     andthen (lights_getitem ''sala'') (\<lambda>light.
     andthen (light_write ''sala'' (light\<lparr>is_on := True\<rparr>)) (\<lambda>light.
     andthen (now e) (\<lambda>t.
     andthen (light_write ''sala'' (light\<lparr>LightState.last_update := t\<rparr>)) (\<lambda>light.
     andthen (send_command_to_esp c e ''/sala/on'') (\<lambda>_.
     return (Message_light ''Luz sala encendida'' light))))))"

definition sala_off :: "config \<Rightarrow> env \<Rightarrow> response prog" where
  "sala_off c e =
     andthen (lights_getitem ''sala'') (\<lambda>light.
     andthen (light_write ''sala'' (light\<lparr>is_on := False\<rparr>)) (\<lambda>light.
     andthen (now e) (\<lambda>t.
     andthen (light_write ''sala'' (light\<lparr>LightState.last_update := t\<rparr>)) (\<lambda>light.
     andthen (send_command_to_esp c e ''/sala/off'') (\<lambda>_.
     return (Message_light ''Luz sala apagada'' light))))))"

definition dorm_on :: "config \<Rightarrow> env \<Rightarrow> response prog" where
  "dorm_on c e =
     andthen (lights_getitem ''dorm'') (\<lambda>light.
     andthen (light_write ''dorm'' (light\<lparr>is_on := True\<rparr>)) (\<lambda>light.
     andthen (now e) (\<lambda>t.
     andthen (light_write ''dorm'' (light\<lparr>LightState.last_update := t\<rparr>)) (\<lambda>light.
     andthen (send_command_to_esp c e ''/dorm/on'') (\<lambda>_.
     return (Message_light ''Luz dormitorio encendida'' light))))))"

definition dorm_off :: "config \<Rightarrow> env \<Rightarrow> response prog" where
  "dorm_off c e =
     andthen (lights_getitem ''dorm'') (\<lambda>light.
     andthen (light_write ''dorm'' (light\<lparr>is_on := False\<rparr>)) (\<lambda>light.
     andthen (now e) (\<lambda>t.
     andthen (light_write ''dorm'' (light\<lparr>LightState.last_update := t\<rparr>)) (\<lambda>light.
     andthen (send_command_to_esp c e ''/dorm/off'') (\<lambda>_.
     return (Message_light ''Luz dormitorio apagada'' light))))))"

definition pir_on :: "config \<Rightarrow> env \<Rightarrow> response prog" where
  "pir_on c e =
     andthen (modify (\<lambda>s. s\<lparr>pir := (pir s)\<lparr>PirState.active := True\<rparr>\<rparr>)) (\<lambda>_.
     andthen (now e) (\<lambda>t.
     andthen (modify (\<lambda>s. s\<lparr>pir := (pir s)\<lparr>PirState.last_update := t\<rparr>\<rparr>)) (\<lambda>_.
     andthen (send_command_to_esp c e ''/pir/on'') (\<lambda>_.
     (\<lambda>w. Return (Message_pir ''PIR activado'' (pir (state w))) w)))))"

definition pir_off :: "config \<Rightarrow> env \<Rightarrow> response prog" where
  "pir_off c e =
     andthen (modify (\<lambda>s. s\<lparr>pir := (pir s)\<lparr>PirState.active := False\<rparr>\<rparr>)) (\<lambda>_.
     andthen (now e) (\<lambda>t.
     andthen (modify (\<lambda>s. s\<lparr>pir := (pir s)\<lparr>PirState.last_update := t\<rparr>\<rparr>)) (\<lambda>_.
     andthen (send_command_to_esp c e ''/pir/off'') (\<lambda>_.
     (\<lambda>w. Return (Message_pir ''PIR desactivado'' (pir (state w))) w)))))"

text \<open>The body of \<^verbatim>\<open>POST /dht/update\<close>, already validated.\<close>

record DhtUpdate =
  temperature :: float64
  humidity :: float64

definition dht_update :: "env \<Rightarrow> DhtUpdate \<Rightarrow> response prog" where
  "dht_update e data =
     andthen (modify (\<lambda>s. s\<lparr>dht := (dht s)\<lparr>DhtState.temperature := Some (DhtUpdate.temperature data)\<rparr>\<rparr>)) (\<lambda>_.
     andthen (modify (\<lambda>s. s\<lparr>dht := (dht s)\<lparr>DhtState.humidity := Some (DhtUpdate.humidity data)\<rparr>\<rparr>)) (\<lambda>_.
     andthen (now e) (\<lambda>t.
     andthen (modify (\<lambda>s. s\<lparr>dht := (dht s)\<lparr>DhtState.last_update := Some t\<rparr>\<rparr>)) (\<lambda>_.
     (\<lambda>w. Return (Message_dht ''DHT actualizado'' (dht (state w))) w)))))"

definition dht_get :: "response prog" where
  "dht_get w = Return (Model_DhtState (dht (state w))) w"

text \<open>
  The two loops of \<^verbatim>\<open>/modo/seguro\<close> walk the values of a dictionary in order and
  assign two attributes of each, reading the clock once per value.
\<close>

fun apagar_luces :: "env \<Rightarrow> (string \<times> LightState) list \<Rightarrow> (string \<times> LightState) list prog" where
  "apagar_luces e [] = return []"
| "apagar_luces e ((k, light) # rest) =
     andthen (now e) (\<lambda>t.
     andthen (apagar_luces e rest) (\<lambda>rest'.
     return ((k, light\<lparr>is_on := False, LightState.last_update := t\<rparr>) # rest')))"

fun cerrar_puertas :: "env \<Rightarrow> (string \<times> DoorState) list \<Rightarrow> (string \<times> DoorState) list prog" where
  "cerrar_puertas e [] = return []"
| "cerrar_puertas e ((k, door) # rest) =
     andthen (now e) (\<lambda>t.
     andthen (cerrar_puertas e rest) (\<lambda>rest'.
     return ((k, door\<lparr>is_open := False, DoorState.last_update := t\<rparr>) # rest')))"

definition modo_seguro :: "config \<Rightarrow> env \<Rightarrow> response prog" where
  "modo_seguro c e =
     andthen (\<lambda>w. apagar_luces e (lights (state w)) w) (\<lambda>ls.
     andthen (modify (\<lambda>s. s\<lparr>lights := ls\<rparr>)) (\<lambda>_.
     andthen (\<lambda>w. cerrar_puertas e (doors (state w)) w) (\<lambda>ds.
     andthen (modify (\<lambda>s. s\<lparr>doors := ds\<rparr>)) (\<lambda>_.
     andthen (modify (\<lambda>s. s\<lparr>pir := (pir s)\<lparr>PirState.active := True\<rparr>\<rparr>)) (\<lambda>_.
     andthen (now e) (\<lambda>t.
     andthen (modify (\<lambda>s. s\<lparr>pir := (pir s)\<lparr>PirState.last_update := t\<rparr>\<rparr>)) (\<lambda>_.
     andthen (modify (\<lambda>s. s\<lparr>ultra := (ultra s)\<lparr>UltraState.active := False\<rparr>\<rparr>)) (\<lambda>_.
     andthen (now e) (\<lambda>t.
     andthen (modify (\<lambda>s. s\<lparr>ultra := (ultra s)\<lparr>UltraState.last_update := t\<rparr>\<rparr>)) (\<lambda>_.
     andthen (modify (\<lambda>s. s\<lparr>HouseState.modo_seguro := True\<rparr>)) (\<lambda>_.
     andthen (send_command_to_esp c e ''/modo/seguro'') (\<lambda>_.
     (\<lambda>w. Return (Message_status ''MODO SEGURO ACTIVADO'' (state w)) w)))))))))))))"

subsection \<open>The application: one request after the other\<close>

datatype request =
    GET_status
  | Principal_open | Principal_close
  | Garage_open | Garage_close
  | Ultra_on | Ultra_off
  | POST_ultra_distance UltraDistanceUpdate
  | Cocina_on | Cocina_off
  | Sala_on | Sala_off
  | Dorm_on | Dorm_off
  | Pir_on | Pir_off
  | POST_dht_update DhtUpdate
  | GET_dht
  | Modo_seguro

fun app :: "config \<Rightarrow> env \<Rightarrow> request \<Rightarrow> response prog" where
  "app c e GET_status = get_status"
| "app c e Principal_open = principal_open c e"
| "app c e Principal_close = principal_close c e"
| "app c e Garage_open = garage_open c e"
| "app c e Garage_close = garage_close c e"
| "app c e Ultra_on = ultra_on c e"
| "app c e Ultra_off = ultra_off c e"
| "app c e (POST_ultra_distance data) = ultra_update_distance e data"
| "app c e Cocina_on = cocina_on c e"
| "app c e Cocina_off = cocina_off c e"
| "app c e Sala_on = sala_on c e"
| "app c e Sala_off = sala_off c e"
| "app c e Dorm_on = dorm_on c e"
| "app c e Dorm_off = dorm_off c e"
| "app c e Pir_on = pir_on c e"
| "app c e Pir_off = pir_off c e"
| "app c e (POST_dht_update data) = dht_update e data"
| "app c e GET_dht = dht_get"
| "app c e Modo_seguro = modo_seguro c e"

text \<open>
  A request that ends in an exception is answered with an error and the process goes on
  with the state as the handler left it.
\<close>

fun serve :: "config \<Rightarrow> env \<Rightarrow> request list \<Rightarrow> world \<Rightarrow> world" where
  "serve c e [] w = w"
| "serve c e (r # rs) w = serve c e rs (world_of (app c e r w))"

subsection \<open>Sub-entities, their timestamps, and what a response shows\<close>

datatype entity = Door string | Light string | Pir | Ultra | Dht

datatype entity_value =
    DoorV DoorState
  | LightV LightState
  | PirV PirState
  | UltraV UltraState
  | DhtV DhtState

fun view :: "entity \<Rightarrow> HouseState \<Rightarrow> entity_value option" where
  "view (Door k) s = map_option DoorV (map_of (doors s) k)"
| "view (Light k) s = map_option LightV (map_of (lights s) k)"
| "view Pir s = Some (PirV (pir s))"
| "view Ultra s = Some (UltraV (ultra s))"
| "view Dht s = Some (DhtV (dht s))"

fun stamp_of :: "entity_value \<Rightarrow> datetime option" where
  "stamp_of (DoorV d) = Some (DoorState.last_update d)"
| "stamp_of (LightV l) = Some (LightState.last_update l)"
| "stamp_of (PirV p) = Some (PirState.last_update p)"
| "stamp_of (UltraV u) = Some (UltraState.last_update u)"
| "stamp_of (DhtV h) = DhtState.last_update h"

text \<open>
  The \<^verbatim>\<open>last_update\<close> of a sub-entity: \<open>None\<close> for a key that is not there
  and for the climate sensor before its first reading.
\<close>

definition stamp :: "entity \<Rightarrow> HouseState \<Rightarrow> datetime option" where
  "stamp x s = (case view x s of None \<Rightarrow> None | Some v \<Rightarrow> stamp_of v)"

fun room_key :: "room_literal \<Rightarrow> string" where
  "room_key Cocina = ''cocina''"
| "room_key Sala = ''sala''"
| "room_key Dorm = ''dorm''"

text \<open>The keys of the two dictionaries, and each object filed under its own name.\<close>

definition wellkeyed :: "HouseState \<Rightarrow> bool" where
  "wellkeyed s \<longleftrightarrow>
     map (\<lambda>(k, door). (k, name door)) (doors s) =
       [(''principal'', ''principal''), (''garage'', ''garage'')] \<and>
     map (\<lambda>(k, light). (k, room light)) (lights s) =
       [(''cocina'', Cocina), (''sala'', Sala), (''dorm'', Dorm)]"

text \<open>Every timestamp in the state is a reading of the clock that was already taken.\<close>

definition stamped :: "env \<Rightarrow> world \<Rightarrow> bool" where
  "stamped e w \<longleftrightarrow>
     (\<forall>x. case stamp x (state w) of None \<Rightarrow> True | Some t \<Rightarrow> t \<in> utcnow e ` {..<ticks w})"

text \<open>The object in a response is the one the state holds.\<close>

fun carries :: "response \<Rightarrow> HouseState \<Rightarrow> bool" where
  "carries (Model_HouseState s') s = (s' = s)"
| "carries (Model_DhtState h) s = (h = dht s)"
| "carries (Message_door m d) s = (map_of (doors s) (name d) = Some d)"
| "carries (Message_ultra m u) s = (u = ultra s)"
| "carries (Message_light m l) s = (map_of (lights s) (room_key (room l)) = Some l)"
| "carries (Message_pir m p) s = (p = pir s)"
| "carries (Message_dht m h) s = (h = dht s)"
| "carries (Message_status m s') s = (s' = s)"

subsection \<open>A concrete configuration and environment\<close>

text \<open>
  Forwarding is switched on, the controller never answers, and the clock advances by one
  microsecond from one reading to the next.
\<close>

definition example_config :: config where
  "example_config = \<lparr>ESP32_BASE_URL = ''http://192.168.1.50'', FORWARD_TO_ESP32 = True\<rparr>"

definition example_env :: env where
  "example_env = \<lparr>utcnow = (\<lambda>k. 1000 + k), requests_get = (\<lambda>k url. RequestException ''timed out'')\<rparr>"

text \<open>
  A clock of coarse resolution: it never goes back, and sixteen readings in a row are equal.
\<close>

definition coarse_env :: env where
  "coarse_env = \<lparr>utcnow = (\<lambda>k. 1000 + 15000 * (k div 16)), requests_get = (\<lambda>k url. Response 200)\<rparr>"

section \<open>Properties\<close>

subsection \<open>Basic facts about the statements\<close>

lemmas prog_defs = andthen_def return_def now_def modify_def getitem_def doors_getitem_def
  lights_getitem_def door_write_def light_write_def

lemma send_command_to_esp_returns:
  "send_command_to_esp c e path w = Return () (after_send c e path w)"
  by (simp add: after_send_def send_command_to_esp_def Let_def split: requests_result.split)

lemma state_after_send: "state (after_send c e path w) = state w"
  by (simp add: after_send_def send_command_to_esp_def Let_def split: requests_result.split)

lemma ticks_after_send: "ticks (after_send c e path w) = ticks w"
  by (simp add: after_send_def send_command_to_esp_def Let_def split: requests_result.split)

lemma apagar_luces_eq:
  "apagar_luces e ls w =
     Return (map (\<lambda>(n, (k, light)). (k, light\<lparr>is_on := False, LightState.last_update := utcnow e n\<rparr>))
               (enumerate (ticks w) ls))
            (w\<lparr>ticks := ticks w + length ls\<rparr>)"
  by (induction ls arbitrary: w) (auto simp: prog_defs)

lemma cerrar_puertas_eq:
  "cerrar_puertas e ds w =
     Return (map (\<lambda>(n, (k, door)). (k, door\<lparr>is_open := False, DoorState.last_update := utcnow e n\<rparr>))
               (enumerate (ticks w) ds))
            (w\<lparr>ticks := ticks w + length ds\<rparr>)"
  by (induction ds arbitrary: w) (auto simp: prog_defs)

lemma map_of_mutate:
  "map_of (mutate k v d) k' = (if k' = k \<and> map_of d k \<noteq> None then Some v else map_of d k')"
  by (induction d) auto

lemma mutate_mutate: "mutate k v' (mutate k v d) = mutate k v' d"
  by (induction d) auto

lemmas handler_simps = prog_defs send_command_to_esp_returns state_after_send ticks_after_send
  map_of_mutate mutate_mutate

lemma principal_open_raises:
  "map_of (doors (state w)) ''principal'' = None \<Longrightarrow>
   principal_open c e w = Raise (KeyError ''principal'') w"
  by (simp add: principal_open_def prog_defs)

lemma principal_open_returns:
  "map_of (doors (state w)) ''principal'' = Some d \<Longrightarrow>
   principal_open c e w =
     Return (Message_door ''Puerta principal abierta'' (d\<lparr>is_open := True, DoorState.last_update := utcnow e (ticks w)\<rparr>))
       (after_send c e ''/principal/open''
         (w\<lparr>ticks := Suc (ticks w),
            state := (state w)
              \<lparr>doors := mutate ''principal'' (d\<lparr>is_open := True, DoorState.last_update := utcnow e (ticks w)\<rparr>) (doors (state w)),
                HouseState.modo_seguro := False\<rparr>\<rparr>))"
  by (simp add: principal_open_def handler_simps)

lemma principal_close_raises:
  "map_of (doors (state w)) ''principal'' = None \<Longrightarrow>
   principal_close c e w = Raise (KeyError ''principal'') w"
  by (simp add: principal_close_def prog_defs)

lemma principal_close_returns:
  "map_of (doors (state w)) ''principal'' = Some d \<Longrightarrow>
   principal_close c e w =
     Return (Message_door ''Puerta principal cerrada'' (d\<lparr>is_open := False, DoorState.last_update := utcnow e (ticks w)\<rparr>))
       (after_send c e ''/principal/close''
         (w\<lparr>ticks := Suc (ticks w),
            state := (state w)
              \<lparr>doors := mutate ''principal'' (d\<lparr>is_open := False, DoorState.last_update := utcnow e (ticks w)\<rparr>) (doors (state w))\<rparr>\<rparr>))"
  by (simp add: principal_close_def handler_simps)

lemma garage_open_raises:
  "map_of (doors (state w)) ''garage'' = None \<Longrightarrow>
   garage_open c e w = Raise (KeyError ''garage'') w"
  by (simp add: garage_open_def prog_defs)

lemma garage_open_returns:
  "map_of (doors (state w)) ''garage'' = Some d \<Longrightarrow>
   garage_open c e w =
     Return (Message_door ''Puerta garage abierta'' (d\<lparr>is_open := True, DoorState.last_update := utcnow e (ticks w)\<rparr>))
       (after_send c e ''/garage/open''
         (w\<lparr>ticks := Suc (ticks w),
            state := (state w)
              \<lparr>doors := mutate ''garage'' (d\<lparr>is_open := True, DoorState.last_update := utcnow e (ticks w)\<rparr>) (doors (state w)),
                HouseState.modo_seguro := False\<rparr>\<rparr>))"
  by (simp add: garage_open_def handler_simps)

lemma garage_close_raises:
  "map_of (doors (state w)) ''garage'' = None \<Longrightarrow>
   garage_close c e w = Raise (KeyError ''garage'') w"
  by (simp add: garage_close_def prog_defs)

lemma garage_close_returns:
  "map_of (doors (state w)) ''garage'' = Some d \<Longrightarrow>
   garage_close c e w =
     Return (Message_door ''Puerta garage cerrada'' (d\<lparr>is_open := False, DoorState.last_update := utcnow e (ticks w)\<rparr>))
       (after_send c e ''/garage/close''
         (w\<lparr>ticks := Suc (ticks w),
            state := (state w)
              \<lparr>doors := mutate ''garage'' (d\<lparr>is_open := False, DoorState.last_update := utcnow e (ticks w)\<rparr>) (doors (state w))\<rparr>\<rparr>))"
  by (simp add: garage_close_def handler_simps)

lemma cocina_on_raises:
  "map_of (lights (state w)) ''cocina'' = None \<Longrightarrow>
   cocina_on c e w = Raise (KeyError ''cocina'') w"
  by (simp add: cocina_on_def prog_defs)

lemma cocina_on_returns:
  "map_of (lights (state w)) ''cocina'' = Some l \<Longrightarrow>
   cocina_on c e w =
     Return (Message_light ''Luz cocina encendida'' (l\<lparr>is_on := True, LightState.last_update := utcnow e (ticks w)\<rparr>))
       (after_send c e ''/cocina/on''
         (w\<lparr>ticks := Suc (ticks w),
            state := (state w)
              \<lparr>lights := mutate ''cocina'' (l\<lparr>is_on := True, LightState.last_update := utcnow e (ticks w)\<rparr>) (lights (state w))\<rparr>\<rparr>))"
  by (simp add: cocina_on_def handler_simps)

lemma cocina_off_raises:
  "map_of (lights (state w)) ''cocina'' = None \<Longrightarrow>
   cocina_off c e w = Raise (KeyError ''cocina'') w"
  by (simp add: cocina_off_def prog_defs)

lemma cocina_off_returns:
  "map_of (lights (state w)) ''cocina'' = Some l \<Longrightarrow>
   cocina_off c e w =
     Return (Message_light ''Luz cocina apagada'' (l\<lparr>is_on := False, LightState.last_update := utcnow e (ticks w)\<rparr>))
       (after_send c e ''/cocina/off''
         (w\<lparr>ticks := Suc (ticks w),
            state := (state w)
              \<lparr>lights := mutate ''cocina'' (l\<lparr>is_on := False, LightState.last_update := utcnow e (ticks w)\<rparr>) (lights (state w))\<rparr>\<rparr>))"
  by (simp add: cocina_off_def handler_simps)

lemma sala_on_raises:
  "map_of (lights (state w)) ''sala'' = None \<Longrightarrow>
   sala_on c e w = Raise (KeyError ''sala'') w"
  by (simp add: sala_on_def prog_defs)

lemma sala_on_returns:
  "map_of (lights (state w)) ''sala'' = Some l \<Longrightarrow>
   sala_on c e w =
     Return (Message_light ''Luz sala encendida'' (l\<lparr>is_on := True, LightState.last_update := utcnow e (ticks w)\<rparr>))
       (after_send c e ''/sala/on''
         (w\<lparr>ticks := Suc (ticks w),
            state := (state w)
              \<lparr>lights := mutate ''sala'' (l\<lparr>is_on := True, LightState.last_update := utcnow e (ticks w)\<rparr>) (lights (state w))\<rparr>\<rparr>))"
  by (simp add: sala_on_def handler_simps)

lemma sala_off_raises:
  "map_of (lights (state w)) ''sala'' = None \<Longrightarrow>
   sala_off c e w = Raise (KeyError ''sala'') w"
  by (simp add: sala_off_def prog_defs)

lemma sala_off_returns:
  "map_of (lights (state w)) ''sala'' = Some l \<Longrightarrow>
   sala_off c e w =
     Return (Message_light ''Luz sala apagada'' (l\<lparr>is_on := False, LightState.last_update := utcnow e (ticks w)\<rparr>))
       (after_send c e ''/sala/off''
         (w\<lparr>ticks := Suc (ticks w),
            state := (state w)
              \<lparr>lights := mutate ''sala'' (l\<lparr>is_on := False, LightState.last_update := utcnow e (ticks w)\<rparr>) (lights (state w))\<rparr>\<rparr>))"
  by (simp add: sala_off_def handler_simps)

lemma dorm_on_raises:
  "map_of (lights (state w)) ''dorm'' = None \<Longrightarrow>
   dorm_on c e w = Raise (KeyError ''dorm'') w"
  by (simp add: dorm_on_def prog_defs)

lemma dorm_on_returns:
  "map_of (lights (state w)) ''dorm'' = Some l \<Longrightarrow>
   dorm_on c e w =
     Return (Message_light ''Luz dormitorio encendida'' (l\<lparr>is_on := True, LightState.last_update := utcnow e (ticks w)\<rparr>))
       (after_send c e ''/dorm/on''
         (w\<lparr>ticks := Suc (ticks w),
            state := (state w)
              \<lparr>lights := mutate ''dorm'' (l\<lparr>is_on := True, LightState.last_update := utcnow e (ticks w)\<rparr>) (lights (state w))\<rparr>\<rparr>))"
  by (simp add: dorm_on_def handler_simps)

lemma dorm_off_raises:
  "map_of (lights (state w)) ''dorm'' = None \<Longrightarrow>
   dorm_off c e w = Raise (KeyError ''dorm'') w"
  by (simp add: dorm_off_def prog_defs)

lemma dorm_off_returns:
  "map_of (lights (state w)) ''dorm'' = Some l \<Longrightarrow>
   dorm_off c e w =
     Return (Message_light ''Luz dormitorio apagada'' (l\<lparr>is_on := False, LightState.last_update := utcnow e (ticks w)\<rparr>))
       (after_send c e ''/dorm/off''
         (w\<lparr>ticks := Suc (ticks w),
            state := (state w)
              \<lparr>lights := mutate ''dorm'' (l\<lparr>is_on := False, LightState.last_update := utcnow e (ticks w)\<rparr>) (lights (state w))\<rparr>\<rparr>))"
  by (simp add: dorm_off_def handler_simps)

lemma ultra_on_eq:
  "ultra_on c e w =
     Return (Message_ultra ''Ultrasonido activado'' ((ultra (state w))\<lparr>UltraState.active := True, UltraState.last_update := utcnow e (ticks w)\<rparr>))
       (after_send c e ''/ultra/on''
         (w\<lparr>ticks := Suc (ticks w),
            state := (state w)\<lparr>ultra := (ultra (state w))\<lparr>UltraState.active := True, UltraState.last_update := utcnow e (ticks w)\<rparr>\<rparr>\<rparr>))"
  by (simp add: ultra_on_def handler_simps)

lemma ultra_off_eq:
  "ultra_off c e w =
     Return (Message_ultra ''Ultrasonido desactivado'' ((ultra (state w))\<lparr>UltraState.active := False, UltraState.last_update := utcnow e (ticks w)\<rparr>))
       (after_send c e ''/ultra/off''
         (w\<lparr>ticks := Suc (ticks w),
            state := (state w)\<lparr>ultra := (ultra (state w))\<lparr>UltraState.active := False, UltraState.last_update := utcnow e (ticks w)\<rparr>\<rparr>\<rparr>))"
  by (simp add: ultra_off_def handler_simps)

lemma pir_on_eq:
  "pir_on c e w =
     Return (Message_pir ''PIR activado'' ((pir (state w))\<lparr>PirState.active := True, PirState.last_update := utcnow e (ticks w)\<rparr>))
       (after_send c e ''/pir/on''
         (w\<lparr>ticks := Suc (ticks w),
            state := (state w)\<lparr>pir := (pir (state w))\<lparr>PirState.active := True, PirState.last_update := utcnow e (ticks w)\<rparr>\<rparr>\<rparr>))"
  by (simp add: pir_on_def handler_simps)

lemma pir_off_eq:
  "pir_off c e w =
     Return (Message_pir ''PIR desactivado'' ((pir (state w))\<lparr>PirState.active := False, PirState.last_update := utcnow e (ticks w)\<rparr>))
       (after_send c e ''/pir/off''
         (w\<lparr>ticks := Suc (ticks w),
            state := (state w)\<lparr>pir := (pir (state w))\<lparr>PirState.active := False, PirState.last_update := utcnow e (ticks w)\<rparr>\<rparr>\<rparr>))"
  by (simp add: pir_off_def handler_simps)

lemma ultra_update_distance_eq:
  "ultra_update_distance e data w =
     Return (Message_ultra ''Distancia actualizada'' ((ultra (state w))\<lparr>UltraState.last_update := utcnow e (ticks w), last_distance_cm := Some (distance_cm data)\<rparr>))
       (w\<lparr>ticks := Suc (ticks w),
          state := (state w)\<lparr>ultra := (ultra (state w))\<lparr>UltraState.last_update := utcnow e (ticks w), last_distance_cm := Some (distance_cm data)\<rparr>\<rparr>\<rparr>)"
  by (simp add: ultra_update_distance_def handler_simps)

lemma dht_update_eq:
  "dht_update e data w =
     Return (Message_dht ''DHT actualizado''
            ((dht (state w))\<lparr>DhtState.temperature := Some (DhtUpdate.temperature data),
              DhtState.humidity := Some (DhtUpdate.humidity data),
              DhtState.last_update := Some (utcnow e (ticks w))\<rparr>))
       (w\<lparr>ticks := Suc (ticks w),
          state := (state w)\<lparr>HouseState.dht := (dht (state w))\<lparr>DhtState.temperature := Some (DhtUpdate.temperature data),
              DhtState.humidity := Some (DhtUpdate.humidity data),
              DhtState.last_update := Some (utcnow e (ticks w))\<rparr>\<rparr>\<rparr>)"
  by (simp add: dht_update_def handler_simps)

lemma modo_seguro_eq:
  "modo_seguro c e w =
     (let nl = length (lights (state w)); nd = length (doors (state w));
          s' = (state w)
               \<lparr>lights := map (\<lambda>(n, (k, light)). (k, light\<lparr>is_on := False, LightState.last_update := utcnow e n\<rparr>))
                     (enumerate (ticks w) (lights (state w))),
                doors := map (\<lambda>(n, (k, door)). (k, door\<lparr>is_open := False, DoorState.last_update := utcnow e n\<rparr>))
                     (enumerate (ticks w + nl) (doors (state w))),
                pir := (pir (state w))\<lparr>PirState.active := True, PirState.last_update := utcnow e (ticks w + nl + nd)\<rparr>,
                ultra := (ultra (state w))\<lparr>UltraState.active := False,
                           UltraState.last_update := utcnow e (Suc (ticks w + nl + nd))\<rparr>,
                HouseState.modo_seguro := True\<rparr>
      in Return (Message_status ''MODO SEGURO ACTIVADO'' s')
           (after_send c e ''/modo/seguro'' (w\<lparr>ticks := Suc (Suc (ticks w + nl + nd)), state := s'\<rparr>)))"
  by (simp add: modo_seguro_def handler_simps apagar_luces_eq cerrar_puertas_eq Let_def)

lemma map_fst_enumerated:
  "map fst (map (\<lambda>(n, (k, v)). (k, f n v)) (enumerate m xs)) = map fst xs"
  by (induction xs arbitrary: m) auto

lemma door_light_cases:
  "(map_of d k = None \<Longrightarrow> P) \<Longrightarrow> (\<And>v. map_of d k = Some v \<Longrightarrow> P) \<Longrightarrow> P"
  by (cases "map_of d k") auto

lemma serve_append: "serve c e (rs @ rs') w = serve c e rs' (serve c e rs w)"
  by (induction rs arbitrary: w) auto

lemmas example_defs = example_config_def example_env_def startup_def initial_state_def

subsection \<open>The state of a fresh process\<close>

text \<open>
  Claim C6. In a fresh process, before any request, \<^verbatim>\<open>GET /status\<close> returns the
  initial state, in which both doors are closed, the three lights are off, the motion
  sensor and the ultrasonic sensor are inactive, no distance and no climate reading
  (temperature, humidity, timestamp) is recorded, and safe mode is off.
\<close>

theorem initial_state_defaults:
  "app c e GET_status (startup e) = Return (Model_HouseState (initial_state e)) (startup e)
   \<and> map (\<lambda>(k, door). (k, is_open door)) (doors (initial_state e)) =
        [(''principal'', False), (''garage'', False)]
   \<and> map (\<lambda>(k, light). (k, is_on light)) (lights (initial_state e)) =
        [(''cocina'', False), (''sala'', False), (''dorm'', False)]
   \<and> \<not> PirState.active (pir (initial_state e))
   \<and> \<not> UltraState.active (ultra (initial_state e))
   \<and> last_distance_cm (ultra (initial_state e)) = None
   \<and> DhtState.temperature (dht (initial_state e)) = None
   \<and> DhtState.humidity (dht (initial_state e)) = None
   \<and> DhtState.last_update (dht (initial_state e)) = None
   \<and> \<not> HouseState.modo_seguro (initial_state e)"
  by (simp add: get_status_def startup_def initial_state_def)

subsection \<open>Safe mode\<close>

text \<open>
  Claim C1. From any state, \<^verbatim>\<open>/modo/seguro\<close> returns, and afterwards every light
  of the lights dictionary is off, every door of the doors dictionary is closed, the
  motion sensor is active, the ultrasonic sensor is inactive and the safe-mode flag is
  set. The timestamp of each light, each door and both sensors is a reading of the clock
  taken during the call, the keys of the two dictionaries are as before, and the response
  carries the whole state as it is after these assignments.
\<close>

theorem modo_seguro_postcondition:
  "\<exists>w'. modo_seguro c e w = Return (Message_status ''MODO SEGURO ACTIVADO'' (state w')) w'
     \<and> map fst (lights (state w')) = map fst (lights (state w))
     \<and> (\<forall>light \<in> snd ` set (lights (state w')).
           \<not> is_on light \<and> LightState.last_update light \<in> utcnow e ` {ticks w ..< ticks w'})
     \<and> map fst (doors (state w')) = map fst (doors (state w))
     \<and> (\<forall>door \<in> snd ` set (doors (state w')).
           \<not> is_open door \<and> DoorState.last_update door \<in> utcnow e ` {ticks w ..< ticks w'})
     \<and> PirState.active (pir (state w'))
     \<and> PirState.last_update (pir (state w')) \<in> utcnow e ` {ticks w ..< ticks w'}
     \<and> \<not> UltraState.active (ultra (state w'))
     \<and> UltraState.last_update (ultra (state w')) \<in> utcnow e ` {ticks w ..< ticks w'}
     \<and> HouseState.modo_seguro (state w')"
proof -
  define nl where "nl = length (lights (state w))"
  define nd where "nd = length (doors (state w))"
  define ls' where "ls' = map (\<lambda>(n, (k, light)). (k, light\<lparr>is_on := False, LightState.last_update := utcnow e n\<rparr>))
                     (enumerate (ticks w) (lights (state w)))"
  define ds' where "ds' = map (\<lambda>(n, (k, door)). (k, door\<lparr>is_open := False, DoorState.last_update := utcnow e n\<rparr>))
                     (enumerate (ticks w + nl) (doors (state w)))"
  define s' where "s' = (state w)
               \<lparr>lights := ls', doors := ds',
                pir := (pir (state w))\<lparr>PirState.active := True, PirState.last_update := utcnow e (ticks w + nl + nd)\<rparr>,
                ultra := (ultra (state w))\<lparr>UltraState.active := False,
                           UltraState.last_update := utcnow e (Suc (ticks w + nl + nd))\<rparr>,
                HouseState.modo_seguro := True\<rparr>"
  define w' where "w' = after_send c e ''/modo/seguro'' (w\<lparr>ticks := Suc (Suc (ticks w + nl + nd)), state := s'\<rparr>)"
  have st: "state w' = s'" and tk: "ticks w' = Suc (Suc (ticks w + nl + nd))"
    by (simp_all add: w'_def state_after_send ticks_after_send)
  have run: "modo_seguro c e w = Return (Message_status ''MODO SEGURO ACTIVADO'' (state w')) w'"
    unfolding st by (simp add: modo_seguro_eq Let_def w'_def s'_def ls'_def ds'_def nl_def nd_def)
  have keys: "map fst ls' = map fst (lights (state w))" "map fst ds' = map fst (doors (state w))"
    unfolding ls'_def ds'_def by (rule map_fst_enumerated)+
  have lights_off: "\<not> is_on light \<and> LightState.last_update light \<in> utcnow e ` {ticks w ..< ticks w'}"
    if "light \<in> snd ` set ls'" for light
    using that unfolding tk by (auto simp: ls'_def in_set_enumerate_eq nl_def)
  have doors_closed: "\<not> is_open door \<and> DoorState.last_update door \<in> utcnow e ` {ticks w ..< ticks w'}"
    if "door \<in> snd ` set ds'" for door
    using that unfolding tk by (auto simp: ds'_def in_set_enumerate_eq nd_def)
  have sensors: "PirState.active (pir s')" "PirState.last_update (pir s') \<in> utcnow e ` {ticks w ..< ticks w'}"
    "\<not> UltraState.active (ultra s')" "UltraState.last_update (ultra s') \<in> utcnow e ` {ticks w ..< ticks w'}"
    "HouseState.modo_seguro s'" "lights s' = ls'" "doors s' = ds'"
    unfolding tk by (simp_all add: s'_def)
  show ?thesis
    using run keys lights_off doors_closed sensors unfolding st[symmetric]
    by (intro exI[of _ w']) (simp add: st)
qed

text \<open>Safe mode on a fresh process, with a controller that does not answer.\<close>

theorem modo_seguro_postcondition_witness:
  "map fst (lights (state (world_of (modo_seguro example_config example_env (startup example_env))))) =
     [''cocina'', ''sala'', ''dorm'']
   \<and> list_all (\<lambda>light. \<not> is_on light)
        (map snd (lights (state (world_of (modo_seguro example_config example_env (startup example_env))))))
   \<and> map fst (doors (state (world_of (modo_seguro example_config example_env (startup example_env))))) =
     [''principal'', ''garage'']
   \<and> list_all (\<lambda>door. \<not> is_open door)
        (map snd (doors (state (world_of (modo_seguro example_config example_env (startup example_env))))))
   \<and> PirState.active (pir (state (world_of (modo_seguro example_config example_env (startup example_env)))))
   \<and> \<not> UltraState.active (ultra (state (world_of (modo_seguro example_config example_env (startup example_env)))))
   \<and> HouseState.modo_seguro (state (world_of (modo_seguro example_config example_env (startup example_env))))"
proof -
  obtain w' where
    run: "modo_seguro example_config example_env (startup example_env) =
            Return (Message_status ''MODO SEGURO ACTIVADO'' (state w')) w'"
    and lk: "map fst (lights (state w')) = map fst (lights (state (startup example_env)))"
    and lo: "\<forall>light \<in> snd ` set (lights (state w')). \<not> is_on light \<and>
               LightState.last_update light \<in> utcnow example_env ` {ticks (startup example_env) ..< ticks w'}"
    and dk: "map fst (doors (state w')) = map fst (doors (state (startup example_env)))"
    and dc: "\<forall>door \<in> snd ` set (doors (state w')). \<not> is_open door \<and>
               DoorState.last_update door \<in> utcnow example_env ` {ticks (startup example_env) ..< ticks w'}"
    and rest: "PirState.active (pir (state w'))" "\<not> UltraState.active (ultra (state w'))"
              "HouseState.modo_seguro (state w')"
    using modo_seguro_postcondition[of example_config example_env "startup example_env"] by blast
  have w: "world_of (modo_seguro example_config example_env (startup example_env)) = w'"
    by (simp add: run)
  from lk have 1: "map fst (lights (state w')) = [''cocina'', ''sala'', ''dorm'']"
    by (simp add: startup_def initial_state_def)
  from dk have 2: "map fst (doors (state w')) = [''principal'', ''garage'']"
    by (simp add: startup_def initial_state_def)
  from lo have 3: "list_all (\<lambda>light. \<not> is_on light) (map snd (lights (state w')))"
    by (simp add: list_all_iff)
  from dc have 4: "list_all (\<lambda>door. \<not> is_open door) (map snd (doors (state w')))"
    by (simp add: list_all_iff)
  show ?thesis unfolding w using 1 2 3 4 rest by simp
qed

subsection \<open>Opening a door\<close>

text \<open>
  Claim C2. For each of the two doors, \<^verbatim>\<open>principal\<close> and \<^verbatim>\<open>garage\<close>: from any
  state that holds the door, whatever the safe-mode flag was, the open handler returns,
  and afterwards the flag is false, the door is open, and its timestamp is the reading of
  the clock taken by the call. The rest of the door is as before, and the response
  carries the door.
\<close>

theorem door_open_clears_modo_seguro:
  "(map_of (doors (state w)) ''principal'' = Some d \<longrightarrow>
      (\<exists>w'. principal_open c e w =
          Return (Message_door ''Puerta principal abierta''
                   (d\<lparr>is_open := True, DoorState.last_update := utcnow e (ticks w)\<rparr>)) w'
        \<and> map_of (doors (state w')) ''principal'' =
            Some (d\<lparr>is_open := True, DoorState.last_update := utcnow e (ticks w)\<rparr>)
        \<and> \<not> HouseState.modo_seguro (state w')))
   \<and> (map_of (doors (state w)) ''garage'' = Some d \<longrightarrow>
      (\<exists>w'. garage_open c e w =
          Return (Message_door ''Puerta garage abierta''
                   (d\<lparr>is_open := True, DoorState.last_update := utcnow e (ticks w)\<rparr>)) w'
        \<and> map_of (doors (state w')) ''garage'' =
            Some (d\<lparr>is_open := True, DoorState.last_update := utcnow e (ticks w)\<rparr>)
        \<and> \<not> HouseState.modo_seguro (state w')))"
  by (simp add: principal_open_returns garage_open_returns state_after_send map_of_mutate)

text \<open>Each door opened right after safe mode: the flag was set and is cleared.\<close>

theorem door_open_clears_modo_seguro_witness:
  "HouseState.modo_seguro (state (world_of (modo_seguro example_config example_env (startup example_env))))
   \<and> \<not> HouseState.modo_seguro (state (world_of (principal_open example_config example_env
          (world_of (modo_seguro example_config example_env (startup example_env))))))
   \<and> map_option is_open (map_of (doors (state (world_of (principal_open example_config example_env
          (world_of (modo_seguro example_config example_env (startup example_env))))))) ''principal'') = Some True
   \<and> \<not> HouseState.modo_seguro (state (world_of (garage_open example_config example_env
          (world_of (modo_seguro example_config example_env (startup example_env))))))
   \<and> map_option is_open (map_of (doors (state (world_of (garage_open example_config example_env
          (world_of (modo_seguro example_config example_env (startup example_env))))))) ''garage'') = Some True"
proof -
  define w where "w = world_of (modo_seguro example_config example_env (startup example_env))"
  have p: "map_of (doors (state w)) ''principal'' =
             Some \<lparr>name = ''principal'', is_open = False, DoorState.last_update = 1010\<rparr>"
    and g: "map_of (doors (state w)) ''garage'' =
             Some \<lparr>name = ''garage'', is_open = False, DoorState.last_update = 1011\<rparr>"
    and f: "HouseState.modo_seguro (state w)"
    by (simp_all add: w_def modo_seguro_eq state_after_send Let_def example_defs)
  show ?thesis
    using door_open_clears_modo_seguro[of w "\<lparr>name = ''principal'', is_open = False, DoorState.last_update = 1010\<rparr>"
            example_config example_env]
          door_open_clears_modo_seguro[of w "\<lparr>name = ''garage'', is_open = False, DoorState.last_update = 1011\<rparr>"
            example_config example_env]
          p g f
    unfolding w_def[symmetric] by auto
qed

subsection \<open>Who writes the safe-mode flag\<close>

text \<open>
  Claim C3. From any state, a request other than the two door-open requests and the
  safe-mode request leaves the safe-mode flag as it was, whether its handler returns or
  raises. In particular closing a door and switching a light on or off do not touch it.
\<close>

theorem only_door_open_and_safe_mode_write_the_flag:
  "r \<notin> {Principal_open, Garage_open, Modo_seguro} \<Longrightarrow>
   HouseState.modo_seguro (state (world_of (app c e r w))) = HouseState.modo_seguro (state w)"
proof (cases r)
  case Principal_close
  show ?thesis unfolding Principal_close
    by (rule door_light_cases[of "doors (state w)" "''principal''"])
       (simp_all add: principal_close_raises principal_close_returns state_after_send)
next
  case Garage_close
  show ?thesis unfolding Garage_close
    by (rule door_light_cases[of "doors (state w)" "''garage''"])
       (simp_all add: garage_close_raises garage_close_returns state_after_send)
next
  case Cocina_on
  show ?thesis unfolding Cocina_on
    by (rule door_light_cases[of "lights (state w)" "''cocina''"])
       (simp_all add: cocina_on_raises cocina_on_returns state_after_send)
next
  case Cocina_off
  show ?thesis unfolding Cocina_off
    by (rule door_light_cases[of "lights (state w)" "''cocina''"])
       (simp_all add: cocina_off_raises cocina_off_returns state_after_send)
next
  case Sala_on
  show ?thesis unfolding Sala_on
    by (rule door_light_cases[of "lights (state w)" "''sala''"])
       (simp_all add: sala_on_raises sala_on_returns state_after_send)
next
  case Sala_off
  show ?thesis unfolding Sala_off
    by (rule door_light_cases[of "lights (state w)" "''sala''"])
       (simp_all add: sala_off_raises sala_off_returns state_after_send)
next
  case Dorm_on
  show ?thesis unfolding Dorm_on
    by (rule door_light_cases[of "lights (state w)" "''dorm''"])
       (simp_all add: dorm_on_raises dorm_on_returns state_after_send)
next
  case Dorm_off
  show ?thesis unfolding Dorm_off
    by (rule door_light_cases[of "lights (state w)" "''dorm''"])
       (simp_all add: dorm_off_raises dorm_off_returns state_after_send)
qed (simp_all add: get_status_def dht_get_def ultra_on_eq ultra_off_eq pir_on_eq pir_off_eq
       ultra_update_distance_eq dht_update_eq state_after_send)

text \<open>Closing a door and switching a light on right after safe mode: the flag stays set.\<close>

theorem only_door_open_and_safe_mode_write_the_flag_witness:
  "Principal_close \<notin> {Principal_open, Garage_open, Modo_seguro}
   \<and> HouseState.modo_seguro (state (world_of (modo_seguro example_config example_env (startup example_env))))
   \<and> HouseState.modo_seguro (state (world_of (app example_config example_env Principal_close
          (world_of (modo_seguro example_config example_env (startup example_env))))))
   \<and> HouseState.modo_seguro (state (world_of (app example_config example_env Cocina_on
          (world_of (modo_seguro example_config example_env (startup example_env))))))"
proof -
  define w where "w = world_of (modo_seguro example_config example_env (startup example_env))"
  have f: "HouseState.modo_seguro (state w)"
    by (simp add: w_def modo_seguro_eq state_after_send Let_def)
  have a: "Principal_close \<notin> {Principal_open, Garage_open, Modo_seguro}"
    and b: "Cocina_on \<notin> {Principal_open, Garage_open, Modo_seguro}"
    by simp_all
  show ?thesis
    using only_door_open_and_safe_mode_write_the_flag[OF a, of example_config example_env w]
          only_door_open_and_safe_mode_write_the_flag[OF b, of example_config example_env w] f
    unfolding w_def[symmetric] by simp
qed

subsection \<open>Reports from the sensors\<close>

text \<open>
  Claim C4. \<^verbatim>\<open>POST /ultra/distance\<close> with the value \<open>v\<close> returns; afterwards
  \<^verbatim>\<open>ultra.last_distance_cm\<close> is \<open>v\<close>, \<^verbatim>\<open>ultra.last_update\<close> is the reading of
  the clock taken by the call, \<^verbatim>\<open>ultra.active\<close> and every field of the state outside
  \<^verbatim>\<open>ultra\<close> are as before, nothing was sent to the controller or printed, whatever
  the configuration, and a following \<^verbatim>\<open>GET /status\<close> returns that state.
\<close>

theorem ultra_update_distance_frame:
  "\<exists>w'. app c e (POST_ultra_distance \<lparr>distance_cm = v\<rparr>) w =
          Return (Message_ultra ''Distancia actualizada'' (ultra (state w'))) w'
     \<and> last_distance_cm (ultra (state w')) = Some v
     \<and> UltraState.last_update (ultra (state w')) = utcnow e (ticks w)
     \<and> ticks w' = Suc (ticks w)
     \<and> UltraState.active (ultra (state w')) = UltraState.active (ultra (state w))
     \<and> state w' = (state w)\<lparr>ultra := ultra (state w')\<rparr>
     \<and> sent w' = sent w
     \<and> stdout w' = stdout w
     \<and> app c e GET_status w' = Return (Model_HouseState (state w')) w'"
  by (simp add: ultra_update_distance_eq get_status_def)

text \<open>
  Claim C5. For all floats \<open>t\<close> and \<open>h\<close> and from any state,
  \<^verbatim>\<open>POST /dht/update\<close> with temperature \<open>t\<close> and humidity \<open>h\<close> returns, and a
  following \<^verbatim>\<open>GET /dht\<close> returns the temperature \<open>t\<close>, the humidity \<open>h\<close> and a
  timestamp that is not \<^verbatim>\<open>None\<close>: the reading of the clock taken by the update.
\<close>

theorem dht_update_then_get:
  "\<exists>w'. app c e (POST_dht_update \<lparr>temperature = t, humidity = h\<rparr>) w =
          Return (Message_dht ''DHT actualizado'' (dht (state w'))) w'
     \<and> app c e GET_dht w' =
          Return (Model_DhtState \<lparr>DhtState.temperature = Some t, DhtState.humidity = Some h,
                    DhtState.last_update = Some (utcnow e (ticks w))\<rparr>) w'"
  by (simp add: dht_update_eq dht_get_def)

subsection \<open>The flag and the configuration it stands for\<close>

text \<open>
  Claim C10. After any sequence of requests to a fresh process, a safe-mode request
  leaves the flag set, the motion sensor active and the ultrasonic sensor inactive. A
  following \<^verbatim>\<open>/ultra/on\<close> makes the ultrasonic sensor active, and a following
  \<^verbatim>\<open>/pir/off\<close> makes the motion sensor inactive, and in both states the flag is
  still set: a state is reached where the flag holds and the safe configuration does not.
\<close>

theorem flag_outlives_safe_configuration:
  "HouseState.modo_seguro (state (serve c e (rs @ [Modo_seguro]) (startup e)))
   \<and> PirState.active (pir (state (serve c e (rs @ [Modo_seguro]) (startup e))))
   \<and> \<not> UltraState.active (ultra (state (serve c e (rs @ [Modo_seguro]) (startup e))))
   \<and> HouseState.modo_seguro (state (serve c e (rs @ [Modo_seguro, Ultra_on]) (startup e)))
   \<and> UltraState.active (ultra (state (serve c e (rs @ [Modo_seguro, Ultra_on]) (startup e))))
   \<and> HouseState.modo_seguro (state (serve c e (rs @ [Modo_seguro, Pir_off]) (startup e)))
   \<and> \<not> PirState.active (pir (state (serve c e (rs @ [Modo_seguro, Pir_off]) (startup e))))"
  by (simp add: serve_append modo_seguro_eq ultra_on_eq pir_off_eq state_after_send Let_def)

subsection \<open>The states a process can reach\<close>

text \<open>
  The handlers neither add nor remove a key, and they keep each door and light under its
  own name. With the keys fixed, every handler can be run symbolically.
\<close>

lemma wellkeyedE:
  assumes "wellkeyed s"
  obtains p g co sa dm where
    "doors s = [(''principal'', p), (''garage'', g)]"
    "lights s = [(''cocina'', co), (''sala'', sa), (''dorm'', dm)]"
    "name p = ''principal''" "name g = ''garage''"
    "room co = Cocina" "room sa = Sala" "room dm = Dorm"
proof -
  from assms have d: "map (\<lambda>(k, door). (k, name door)) (doors s) =
       [(''principal'', ''principal''), (''garage'', ''garage'')]"
    and l: "map (\<lambda>(k, light). (k, room light)) (lights s) =
       [(''cocina'', Cocina), (''sala'', Sala), (''dorm'', Dorm)]"
    by (simp_all add: wellkeyed_def)
  from d obtain p g where "doors s = [(''principal'', p), (''garage'', g)]"
    "name p = ''principal''" "name g = ''garage''"
    by (auto simp: map_eq_Cons_conv)
  moreover from l obtain co sa dm where "lights s = [(''cocina'', co), (''sala'', sa), (''dorm'', dm)]"
    "room co = Cocina" "room sa = Sala" "room dm = Dorm"
    by (auto simp: map_eq_Cons_conv)
  ultimately show thesis using that by blast
qed

lemmas handler_defs = get_status_def principal_open_def principal_close_def garage_open_def
  garage_close_def ultra_on_def ultra_off_def ultra_update_distance_def cocina_on_def
  cocina_off_def sala_on_def sala_off_def dorm_on_def dorm_off_def pir_on_def pir_off_def
  dht_update_def dht_get_def

lemma app_step:
  assumes "wellkeyed (state w)"
  shows "\<exists>resp w' w''. app c e r w = Return resp w' \<and> carries resp (state w') \<and> wellkeyed (state w')
           \<and> app c' (e\<lparr>requests_get := g\<rparr>) r w = Return resp w''
           \<and> state w'' = state w' \<and> ticks w'' = ticks w'"
proof -
  from assms obtain p g co sa dm where s:
    "doors (state w) = [(''principal'', p), (''garage'', g)]"
    "lights (state w) = [(''cocina'', co), (''sala'', sa), (''dorm'', dm)]"
    "name p = ''principal''" "name g = ''garage''"
    "room co = Cocina" "room sa = Sala" "room dm = Dorm"
    by (rule wellkeyedE)
  show ?thesis
    by (cases r)
       (simp_all add: handler_defs handler_simps modo_seguro_eq Let_def s wellkeyed_def)
qed

lemma wellkeyed_startup: "wellkeyed (state (startup e))"
  by (simp add: wellkeyed_def startup_def initial_state_def)

lemma wellkeyed_app: "wellkeyed (state w) \<Longrightarrow> wellkeyed (state (world_of (app c e r w)))"
  using app_step[of w c e r c "requests_get e"] by auto

lemma wellkeyed_serve: "wellkeyed (state w) \<Longrightarrow> wellkeyed (state (serve c e rs w))"
  by (induction rs arbitrary: w) (simp_all add: wellkeyed_app)

lemma wellkeyed_keys:
  "wellkeyed s \<Longrightarrow>
   map fst (doors s) = [''principal'', ''garage''] \<and> map fst (lights s) = [''cocina'', ''sala'', ''dorm'']"
  by (erule wellkeyedE) simp

text \<open>
  Claim C8. Whatever requests a process has served since its start, the next request
  returns: no handler raises, so no lookup of a door or a light fails. Before and after
  it the doors dictionary has exactly the keys \<^verbatim>\<open>principal\<close> and \<^verbatim>\<open>garage\<close> and the
  lights dictionary exactly \<^verbatim>\<open>cocina\<close>, \<^verbatim>\<open>sala\<close> and \<^verbatim>\<open>dorm\<close>. A request names
  its handler and carries at most the floats of a report, never a key.
\<close>

theorem every_request_returns:
  "\<exists>resp w'. app c e r (serve c e rs (startup e)) = Return resp w'
     \<and> map fst (doors (state (serve c e rs (startup e)))) = [''principal'', ''garage'']
     \<and> map fst (lights (state (serve c e rs (startup e)))) = [''cocina'', ''sala'', ''dorm'']
     \<and> map fst (doors (state w')) = [''principal'', ''garage'']
     \<and> map fst (lights (state w')) = [''cocina'', ''sala'', ''dorm'']"
proof -
  have wk: "wellkeyed (state (serve c e rs (startup e)))"
    by (rule wellkeyed_serve) (rule wellkeyed_startup)
  then obtain resp w' where "app c e r (serve c e rs (startup e)) = Return resp w'"
    and "wellkeyed (state w')"
    using app_step[of "serve c e rs (startup e)" c e r c "requests_get e"] by auto
  with wk show ?thesis by (auto dest: wellkeyed_keys)
qed

subsection \<open>Forwarding never decides the outcome\<close>


subsection \<open>Timestamps\<close>

text \<open>
  A request leaves a sub-entity as it was or gives it a timestamp read from the clock
  during the request; hence every timestamp in a reachable state is an earlier reading.
\<close>

lemma app_touch:
  assumes "wellkeyed (state w)"
  shows "ticks w \<le> ticks (world_of (app c e r w)) \<and>
         (view x (state (world_of (app c e r w))) = view x (state w) \<or>
          stamp x (state (world_of (app c e r w))) \<in>
            Some ` utcnow e ` {ticks w ..< ticks (world_of (app c e r w))})"
proof -
  from assms obtain p g co sa dm where s:
    "doors (state w) = [(''principal'', p), (''garage'', g)]"
    "lights (state w) = [(''cocina'', co), (''sala'', sa), (''dorm'', dm)]"
    by (rule wellkeyedE)
  show ?thesis
    by (cases r; cases x)
       (simp_all add: handler_defs handler_simps modo_seguro_eq Let_def s stamp_def)
qed

lemma stamped_startup: "stamped e (startup e)"
  unfolding stamped_def
proof
  fix x
  have "utcnow e n \<in> utcnow e ` {..<7}" if "n < 7" for n
    using that by blast
  then show "case stamp x (state (startup e)) of None \<Rightarrow> True
             | Some t \<Rightarrow> t \<in> utcnow e ` {..<ticks (startup e)}"
    by (cases x) (simp_all add: stamp_def startup_def initial_state_def)
qed

lemma stamped_app:
  assumes wk: "wellkeyed (state w)" and st: "stamped e w"
  shows "stamped e (world_of (app c e r w))"
  unfolding stamped_def
proof
  fix x
  let ?w' = "world_of (app c e r w)"
  from app_touch[OF wk, of c e r x]
  have le: "ticks w \<le> ticks ?w'"
    and t: "view x (state ?w') = view x (state w) \<or>
            stamp x (state ?w') \<in> Some ` utcnow e ` {ticks w ..< ticks ?w'}"
    by simp_all
  from t show "case stamp x (state ?w') of None \<Rightarrow> True
               | Some t \<Rightarrow> t \<in> utcnow e ` {..<ticks ?w'}"
  proof
    assume "view x (state ?w') = view x (state w)"
    then have "stamp x (state ?w') = stamp x (state w)"
      by (simp add: stamp_def)
    moreover from st have "case stamp x (state w) of None \<Rightarrow> True
               | Some t \<Rightarrow> t \<in> utcnow e ` {..<ticks w}"
      by (simp add: stamped_def)
    ultimately show ?thesis
      using le by (auto split: option.splits)
  next
    assume "stamp x (state ?w') \<in> Some ` utcnow e ` {ticks w ..< ticks ?w'}"
    then show ?thesis by auto
  qed
qed

lemma stamped_serve:
  "wellkeyed (state w) \<Longrightarrow> stamped e w \<Longrightarrow> stamped e (serve c e rs w)"
  by (induction rs arbitrary: w) (simp_all add: wellkeyed_app stamped_app)

lemma stamp_step_le:
  assumes m: "mono (utcnow e)" and wk: "wellkeyed (state w)" and st: "stamped e w"
  shows "stamp x (state w) \<le> stamp x (state (world_of (app c e r w)))"
proof -
  let ?w' = "world_of (app c e r w)"
  from app_touch[OF wk, of c e r x]
  have "view x (state ?w') = view x (state w) \<or>
        stamp x (state ?w') \<in> Some ` utcnow e ` {ticks w ..< ticks ?w'}"
    by simp
  then show ?thesis
  proof
    assume "view x (state ?w') = view x (state w)"
    then show ?thesis by (simp add: stamp_def)
  next
    assume "stamp x (state ?w') \<in> Some ` utcnow e ` {ticks w ..< ticks ?w'}"
    then obtain n where n: "ticks w \<le> n" "stamp x (state ?w') = Some (utcnow e n)"
      by auto
    show ?thesis
    proof (cases "stamp x (state w)")
      case None
      then show ?thesis by simp
    next
      case (Some t)
      with st obtain k where "k < ticks w" "t = utcnow e k"
        by (auto simp: stamped_def split: option.splits dest!: spec[of _ x])
      with n m have "t \<le> utcnow e n"
        by (auto dest: monoD[of _ k n])
      with Some n show ?thesis by simp
    qed
  qed
qed

lemma stamp_serve_le:
  assumes m: "mono (utcnow e)"
  shows "wellkeyed (state w) \<Longrightarrow> stamped e w \<Longrightarrow>
         stamp x (state w) \<le> stamp x (state (serve c e rs w))"
proof (induction rs arbitrary: w)
  case Nil
  then show ?case by simp
next
  case (Cons r rs)
  have "stamp x (state w) \<le> stamp x (state (world_of (app c e r w)))"
    using m Cons.prems by (rule stamp_step_le)
  also have "\<dots> \<le> stamp x (state (serve c e rs (world_of (app c e r w))))"
    using Cons.prems by (intro Cons.IH wellkeyed_app stamped_app)
  finally show ?case by simp
qed

lemma stamp_fresh_less:
  assumes sm: "strict_mono (utcnow e)" and st: "stamped e w" and n: "ticks w \<le> n"
  shows "stamp x (state w) < Some (utcnow e n)"
proof (cases "stamp x (state w)")
  case None
  then show ?thesis by simp
next
  case (Some t)
  with st obtain k where "k < ticks w" "t = utcnow e k"
    by (auto simp: stamped_def split: option.splits dest!: spec[of _ x])
  with n sm have "t < utcnow e n"
    by (auto dest: strict_monoD[of _ k n])
  with Some show ?thesis by simp
qed

lemma door_open_close_stamps:
  assumes wk: "wellkeyed (state w)"
  shows "stamp (Door ''principal'') (state (serve c e [Principal_open] w)) = Some (utcnow e (ticks w))"
    and "stamp (Door ''principal'') (state (serve c e [Principal_open, Principal_close] w)) =
           Some (utcnow e (Suc (ticks w)))"
    and "map_option is_open (map_of (doors (state (serve c e [Principal_open, Principal_close] w))) ''principal'')
           = Some False"
    and "stamp (Door ''garage'') (state (serve c e [Garage_open] w)) = Some (utcnow e (ticks w))"
    and "stamp (Door ''garage'') (state (serve c e [Garage_open, Garage_close] w)) =
           Some (utcnow e (Suc (ticks w)))"
    and "map_option is_open (map_of (doors (state (serve c e [Garage_open, Garage_close] w))) ''garage'')
           = Some False"
proof -
  from assms obtain p g co sa dm where s:
    "doors (state w) = [(''principal'', p), (''garage'', g)]"
    "lights (state w) = [(''cocina'', co), (''sala'', sa), (''dorm'', dm)]"
    by (rule wellkeyedE)
  show "stamp (Door ''principal'') (state (serve c e [Principal_open] w)) = Some (utcnow e (ticks w))"
    and "stamp (Door ''principal'') (state (serve c e [Principal_open, Principal_close] w)) =
           Some (utcnow e (Suc (ticks w)))"
    and "map_option is_open (map_of (doors (state (serve c e [Principal_open, Principal_close] w))) ''principal'')
           = Some False"
    and "stamp (Door ''garage'') (state (serve c e [Garage_open] w)) = Some (utcnow e (ticks w))"
    and "stamp (Door ''garage'') (state (serve c e [Garage_open, Garage_close] w)) =
           Some (utcnow e (Suc (ticks w)))"
    and "map_option is_open (map_of (doors (state (serve c e [Garage_open, Garage_close] w))) ''garage'')
           = Some False"
    by (simp_all add: handler_defs handler_simps s stamp_def)
qed

text \<open>
  Claim C7, as the code has it. For a clock that never goes back, along any sequence of
  requests to a fresh process the \<^verbatim>\<open>last_update\<close> of every sub-entity never decreases,
  and whenever a request changes a sub-entity, the new \<^verbatim>\<open>last_update\<close> of that
  sub-entity is a reading of the clock taken during that request. For each door, opening
  it and then closing it leaves it closed, and its \<^verbatim>\<open>last_update\<close> does not decrease
  across the open and across the close; it strictly increases across both when each
  reading of the clock is later than the one before.
\<close>

theorem last_update_monotone:
  assumes "mono (utcnow e)"
  shows "(\<forall>x. stamp x (state (serve c e rs (startup e))) \<le>
              stamp x (state (serve c e (rs @ rs') (startup e))))
    \<and> (\<forall>x. view x (state (serve c e (rs @ [r]) (startup e))) \<noteq>
              view x (state (serve c e rs (startup e))) \<longrightarrow>
            stamp x (state (serve c e (rs @ [r]) (startup e))) \<in>
              Some ` utcnow e ` {ticks (serve c e rs (startup e)) ..<
                                 ticks (serve c e (rs @ [r]) (startup e))})
    \<and> map_option is_open
          (map_of (doors (state (serve c e (rs @ [Principal_open, Principal_close]) (startup e))))
             ''principal'') = Some False
    \<and> stamp (Door ''principal'') (state (serve c e rs (startup e))) \<le>
        stamp (Door ''principal'') (state (serve c e (rs @ [Principal_open]) (startup e)))
    \<and> stamp (Door ''principal'') (state (serve c e (rs @ [Principal_open]) (startup e))) \<le>
        stamp (Door ''principal'') (state (serve c e (rs @ [Principal_open, Principal_close]) (startup e)))
    \<and> map_option is_open
          (map_of (doors (state (serve c e (rs @ [Garage_open, Garage_close]) (startup e))))
             ''garage'') = Some False
    \<and> stamp (Door ''garage'') (state (serve c e rs (startup e))) \<le>
        stamp (Door ''garage'') (state (serve c e (rs @ [Garage_open]) (startup e)))
    \<and> stamp (Door ''garage'') (state (serve c e (rs @ [Garage_open]) (startup e))) \<le>
        stamp (Door ''garage'') (state (serve c e (rs @ [Garage_open, Garage_close]) (startup e)))
    \<and> (strict_mono (utcnow e) \<longrightarrow>
          stamp (Door ''principal'') (state (serve c e rs (startup e))) <
            stamp (Door ''principal'') (state (serve c e (rs @ [Principal_open]) (startup e)))
        \<and> stamp (Door ''principal'') (state (serve c e (rs @ [Principal_open]) (startup e))) <
            stamp (Door ''principal'') (state (serve c e (rs @ [Principal_open, Principal_close]) (startup e)))
        \<and> stamp (Door ''garage'') (state (serve c e rs (startup e))) <
            stamp (Door ''garage'') (state (serve c e (rs @ [Garage_open]) (startup e)))
        \<and> stamp (Door ''garage'') (state (serve c e (rs @ [Garage_open]) (startup e))) <
            stamp (Door ''garage'') (state (serve c e (rs @ [Garage_open, Garage_close]) (startup e))))"
proof -
  define w where "w = serve c e rs (startup e)"
  have wk: "wellkeyed (state w)"
    unfolding w_def by (rule wellkeyed_serve) (rule wellkeyed_startup)
  have st: "stamped e w"
    unfolding w_def by (rule stamped_serve) (rule wellkeyed_startup, rule stamped_startup)
  note door = door_open_close_stamps[OF wk, of c e]
  have a: "stamp x (state w) \<le> stamp x (state (serve c e rs' w))" for x rs'
    using assms wk st by (rule stamp_serve_le)
  have b: "stamp x (state (serve c e [r] w)) \<in>
             Some ` utcnow e ` {ticks w ..< ticks (serve c e [r] w)}"
    if "view x (state (serve c e [r] w)) \<noteq> view x (state w)" for x
    using app_touch[OF wk, of c e r x] that by simp
  have next_le: "utcnow e (ticks w) \<le> utcnow e (Suc (ticks w))"
    using assms by (simp add: mono_def)
  have closed: "map_option is_open (map_of (doors (state (serve c e [Principal_open, Principal_close] w)))
               ''principal'') = Some False"
      "map_option is_open (map_of (doors (state (serve c e [Garage_open, Garage_close] w)))
               ''garage'') = Some False"
    by (rule door)+
  have le: "stamp (Door ''principal'') (state w) \<le>
            stamp (Door ''principal'') (state (serve c e [Principal_open] w))"
      "stamp (Door ''principal'') (state (serve c e [Principal_open] w)) \<le>
            stamp (Door ''principal'') (state (serve c e [Principal_open, Principal_close] w))"
      "stamp (Door ''garage'') (state w) \<le>
            stamp (Door ''garage'') (state (serve c e [Garage_open] w))"
      "stamp (Door ''garage'') (state (serve c e [Garage_open] w)) \<le>
            stamp (Door ''garage'') (state (serve c e [Garage_open, Garage_close] w))"
  proof -
    show "stamp (Door ''principal'') (state w) \<le>
            stamp (Door ''principal'') (state (serve c e [Principal_open] w))"
      by (rule a)
    show "stamp (Door ''garage'') (state w) \<le>
            stamp (Door ''garage'') (state (serve c e [Garage_open] w))"
      by (rule a)
    show "stamp (Door ''principal'') (state (serve c e [Principal_open] w)) \<le>
            stamp (Door ''principal'') (state (serve c e [Principal_open, Principal_close] w))"
      using next_le by (simp only: door less_eq_option_Some)
    show "stamp (Door ''garage'') (state (serve c e [Garage_open] w)) \<le>
            stamp (Door ''garage'') (state (serve c e [Garage_open, Garage_close] w))"
      using next_le by (simp only: door less_eq_option_Some)
  qed
  have less: "stamp (Door ''principal'') (state w) <
            stamp (Door ''principal'') (state (serve c e [Principal_open] w))
        \<and> stamp (Door ''principal'') (state (serve c e [Principal_open] w)) <
            stamp (Door ''principal'') (state (serve c e [Principal_open, Principal_close] w))
        \<and> stamp (Door ''garage'') (state w) <
            stamp (Door ''garage'') (state (serve c e [Garage_open] w))
        \<and> stamp (Door ''garage'') (state (serve c e [Garage_open]  w)) <
            stamp (Door ''garage'') (state (serve c e [Garage_open, Garage_close] w))"
    if sm: "strict_mono (utcnow e)"
  proof -
    have "utcnow e (ticks w) < utcnow e (Suc (ticks w))"
      using sm by (simp add: strict_mono_def)
    moreover have "stamp x (state w) < Some (utcnow e (ticks w))" for x
      using sm st by (rule stamp_fresh_less) simp
    ultimately show ?thesis
      by (simp only: door less_option_Some simp_thms)
  qed
  from a b closed le less show ?thesis
    unfolding serve_append w_def[symmetric] by blast
qed

text \<open>A clock that advances by one microsecond per reading, on a fresh process.\<close>

theorem last_update_monotone_witness:
  "mono (utcnow example_env) \<and> strict_mono (utcnow example_env)
   \<and> stamp Dht (state (startup example_env)) \<le>
       stamp Dht (state (serve example_config example_env
          [POST_dht_update \<lparr>temperature = 0x4037199999999999, humidity = 0x404B800000000000\<rparr>, Cocina_on]
          (startup example_env)))
   \<and> view (Light ''sala'') (state (serve example_config example_env [Sala_on] (startup example_env))) \<noteq>
       view (Light ''sala'') (state (startup example_env))
   \<and> stamp (Light ''sala'') (state (serve example_config example_env [Sala_on] (startup example_env))) \<in>
       Some ` utcnow example_env ` {ticks (startup example_env) ..<
          ticks (serve example_config example_env [Sala_on] (startup example_env))}
   \<and> map_option is_open (map_of (doors (state (serve example_config example_env
         [Principal_open, Principal_close] (startup example_env)))) ''principal'') = Some False
   \<and> stamp (Door ''principal'') (state (startup example_env)) <
       stamp (Door ''principal'') (state (serve example_config example_env [Principal_open] (startup example_env)))
   \<and> stamp (Door ''principal'') (state (serve example_config example_env [Principal_open] (startup example_env))) <
       stamp (Door ''principal'') (state (serve example_config example_env
         [Principal_open, Principal_close] (startup example_env)))"
proof -
  have m: "mono (utcnow example_env)" and sm: "strict_mono (utcnow example_env)"
    by (simp_all add: example_env_def mono_def strict_mono_def)
  have v: "view (Light ''sala'') (state (serve example_config example_env [Sala_on] (startup example_env))) \<noteq>
       view (Light ''sala'') (state (startup example_env))"
    by (simp add: sala_on_def handler_simps startup_def initial_state_def)
  note inst = last_update_monotone[OF m, where c = example_config and rs = "[]"
      and rs' = "[POST_dht_update \<lparr>temperature = 0x4037199999999999, humidity = 0x404B800000000000\<rparr>, Cocina_on]"
      and r = Sala_on]
  from inst have a: "stamp Dht (state (startup example_env)) \<le>
       stamp Dht (state (serve example_config example_env
          [POST_dht_update \<lparr>temperature = 0x4037199999999999, humidity = 0x404B800000000000\<rparr>, Cocina_on]
          (startup example_env)))"
    by simp
  from inst v have b: "stamp (Light ''sala'') (state (serve example_config example_env [Sala_on] (startup example_env))) \<in>
       Some ` utcnow example_env ` {ticks (startup example_env) ..<
          ticks (serve example_config example_env [Sala_on] (startup example_env))}"
    by simp
  from inst sm have c: "map_option is_open (map_of (doors (state (serve example_config example_env
         [Principal_open, Principal_close] (startup example_env)))) ''principal'') = Some False
   \<and> stamp (Door ''principal'') (state (startup example_env)) <
       stamp (Door ''principal'') (state (serve example_config example_env [Principal_open] (startup example_env)))
   \<and> stamp (Door ''principal'') (state (serve example_config example_env [Principal_open] (startup example_env))) <
       stamp (Door ''principal'') (state (serve example_config example_env
         [Principal_open, Principal_close] (startup example_env)))"
    by simp
  from m sm a v b c show ?thesis by blast
qed

lemma mono_coarse: "mono (utcnow coarse_env)"
  by (simp add: coarse_env_def mono_def div_le_mono)

text \<open>
  A clock that never goes back does not make the increase strict: the handlers store the
  reading as it is, and with the coarse clock the main door keeps the timestamp of the
  start of the process across the open and across the close.
\<close>

theorem last_update_strict_counterexample:
  "mono (utcnow coarse_env)
   \<and> stamp (Door ''principal'') (state (startup coarse_env)) = Some 1000
   \<and> stamp (Door ''principal'')
         (state (serve example_config coarse_env [Principal_open] (startup coarse_env))) = Some 1000
   \<and> stamp (Door ''principal'')
         (state (serve example_config coarse_env [Principal_open, Principal_close] (startup coarse_env))) = Some 1000
   \<and> \<not> stamp (Door ''principal'') (state (startup coarse_env)) <
         stamp (Door ''principal'')
           (state (serve example_config coarse_env [Principal_open] (startup coarse_env)))
   \<and> \<not> stamp (Door ''principal'')
           (state (serve example_config coarse_env [Principal_open] (startup coarse_env))) <
         stamp (Door ''principal'')
           (state (serve example_config coarse_env [Principal_open, Principal_close] (startup coarse_env)))"
proof -
  have wk: "wellkeyed (state (startup coarse_env))"
    by (rule wellkeyed_startup)
  have 0: "stamp (Door ''principal'') (state (startup coarse_env)) = Some 1000"
    by (simp add: stamp_def startup_def initial_state_def coarse_env_def)
  have 1: "stamp (Door ''principal'')
         (state (serve example_config coarse_env [Principal_open] (startup coarse_env))) = Some 1000"
    unfolding door_open_close_stamps[OF wk] by (simp add: startup_def coarse_env_def)
  have 2: "stamp (Door ''principal'')
         (state (serve example_config coarse_env [Principal_open, Principal_close] (startup coarse_env))) = Some 1000"
    unfolding door_open_close_stamps[OF wk] by (simp add: startup_def coarse_env_def)
  show ?thesis
    unfolding 0 1 2 using mono_coarse by simp
qed

end
